theory Spec2Isabelle
  imports Main
begin

section \<open>The generated MCP server script\<close>

text \<open>
  The notebook \<^verbatim>\<open>notebook/mcp/mcp_client.ipynb\<close> holds the server as a Python string
  literal, \<^verbatim>\<open>mcp_server_file_content\<close>, and writes it to \<^verbatim>\<open>mcp_server.py\<close>. The literal
  is kept here line by line; every line of the Python literal ends with a newline.
\<close>

definition join_lines :: "string list \<Rightarrow> string" where
  "join_lines ls = concat (map (\<lambda>l. l @ [CHR 0x0A]) ls)"

definition mcp_server_file_lines :: "string list" where
  \<open>mcp_server_file_lines =
    [''# mcp_server.py'',
     ''import argparse'',
     ''from mcp.server.fastmcp import FastMCP'',
     '''',
     ''mcp = FastMCP("McpServer")'',
     '''',
     '''',
     ''@mcp.tool()'',
     ''def add(a: int, b: int) -> int:'',
     ''    """Add two numbers"""'',
     ''    return a + b'',
     '''',
     '''',
     ''@mcp.tool()'',
     ''def multiply(a: int, b: int) -> int:'',
     ''    """Multiply two numbers"""'',
     ''    return a * b'',
     '''',
     '''',
     ''files = {'',
     ''    "ag2": "AG has released 0.8.5 version on 2025-04-03",'',
     ''}'',
     '''',
     ''@mcp.resource("server-file://{name}")'',
     ''def get_server_file(name: str) -> str:'',
     ''    """Get a file content"""'',
     ''    return files.get(name, f"File not found: {name}")'',
     '''',
     '''',
     ''if __name__ == "__main__":'',
     ''    parser = argparse.ArgumentParser(description="MCP Server")'',
     ''    parser.add_argument("transport", choices=["stdio", "sse"], help="Transport mode (stdio, sse or streamable-http)")'',
     ''    args = parser.parse_args()'',
     '''',
     ''    mcp.run(transport=args.transport)'']\<close>

definition mcp_server_file_content :: string where
  "mcp_server_file_content = join_lines mcp_server_file_lines"

subsection \<open>Writing the script\<close>

text \<open>
  \<^verbatim>\<open>mcp_server_path = Path("mcp_server.py"); mcp_server_path.write_text(content)\<close>.
  The file system is a map from paths (relative to the working directory) to text.
  \<^verbatim>\<open>write_text\<close> replaces the whole file and returns the number of characters written.
  Errors that the operating system raises on a write are not part of the notebook's code
  and are not modelled.
\<close>

type_synonym file_system = "string \<rightharpoonup> string"

definition write_text :: "file_system \<Rightarrow> string \<Rightarrow> string \<Rightarrow> file_system \<times> nat" where
  "write_text fs path data = (fs(path \<mapsto> data), length data)"

definition mcp_server_path :: string where
  "mcp_server_path = ''mcp_server.py''"

definition generate_server_script :: "file_system \<Rightarrow> file_system \<times> nat" where
  "generate_server_script fs = write_text fs mcp_server_path mcp_server_file_content"

subsection \<open>The tools\<close>

text \<open>
  \<^verbatim>\<open>def add(a: int, b: int) -> int: return a + b\<close> and
  \<^verbatim>\<open>def multiply(a: int, b: int) -> int: return a * b\<close>. Python integers are unbounded.
\<close>

definition add :: "int \<Rightarrow> int \<Rightarrow> int" where
  "add a b = a + b"

definition multiply :: "int \<Rightarrow> int \<Rightarrow> int" where
  "multiply a b = a * b"

text \<open>
  Each \<^verbatim>\<open>@mcp.tool()\<close> decorator registers the function it decorates under the function's
  name. Both tools take the two integer arguments \<^verbatim>\<open>a\<close> and \<^verbatim>\<open>b\<close>. A call names the
  tool; a name that was never registered is an error of the call.
\<close>

datatype py_error = KeyError string | UnknownTool string

definition tools :: "(string \<times> (int \<Rightarrow> int \<Rightarrow> int)) list" where
  "tools = [(''add'', add), (''multiply'', multiply)]"

definition call_tool :: "string \<Rightarrow> int \<Rightarrow> int \<Rightarrow> py_error + int" where
  "call_tool name a b =
     (case map_of tools name of
        None \<Rightarrow> Inl (UnknownTool name)
      | Some f \<Rightarrow> Inr (f a b))"

subsection \<open>The resource\<close>

text \<open>
  \<^verbatim>\<open>files = {"ag2": "AG has released 0.8.5 version on 2025-04-03"}\<close>, and
  \<^verbatim>\<open>get_server_file(name)\<close> returns \<^verbatim>\<open>files.get(name, f"File not found: {name}")\<close>.
  Python has two lookups: \<^verbatim>\<open>d[k]\<close> raises \<^verbatim>\<open>KeyError\<close> for a missing key, and
  \<^verbatim>\<open>d.get(k, default)\<close> returns the default instead. Both are functions into a result
  type, so that which one the resource uses shows in what it returns.
\<close>

definition files :: "(string \<times> string) list" where
  "files = [(''ag2'', ''AG has released 0.8.5 version on 2025-04-03'')]"

definition dict_getitem :: "(string \<times> 'v) list \<Rightarrow> string \<Rightarrow> py_error + 'v" where
  "dict_getitem d k = (case map_of d k of None \<Rightarrow> Inl (KeyError k) | Some v \<Rightarrow> Inr v)"

definition dict_get :: "(string \<times> 'v) list \<Rightarrow> string \<Rightarrow> 'v \<Rightarrow> py_error + 'v" where
  "dict_get d k dflt = (case map_of d k of None \<Rightarrow> Inr dflt | Some v \<Rightarrow> Inr v)"

definition get_server_file :: "string \<Rightarrow> py_error + string" where
  "get_server_file name = dict_get files name (''File not found: '' @ name)"

subsection \<open>The command line\<close>

text \<open>
  \<^verbatim>\<open>parser.add_argument("transport", choices=["stdio", "sse"], help=...)\<close> followed by
  \<^verbatim>\<open>parser.parse_args()\<close> and \<^verbatim>\<open>mcp.run(transport=args.transport)\<close>. The command line is
  the list of tokens after the script's name; the tokens are plain values (none begins
  with a dash, which argparse reads as an option). The first token is bound to the
  positional \<^verbatim>\<open>transport\<close> and checked against the choices; a missing token, a value
  outside the choices and any further token each end the process with a usage error.
\<close>

datatype usage_error =
    MissingArgument string
  | InvalidChoice string "string list"
  | UnrecognizedArguments "string list"

record namespace =
  transport :: string

definition transport_choices :: "string list" where
  "transport_choices = [''stdio'', ''sse'']"

fun parse_args :: "string list \<Rightarrow> usage_error + namespace" where
  "parse_args [] = Inl (MissingArgument ''transport'')"
| "parse_args (v # rest) =
     (if v \<notin> set transport_choices then Inl (InvalidChoice v transport_choices)
      else if rest \<noteq> [] then Inl (UnrecognizedArguments rest)
      else Inr \<lparr>transport = v\<rparr>)"

text \<open>The script's main block: what the server is started with, or the usage error.\<close>

datatype server_run = McpRun string

definition server_main :: "string list \<Rightarrow> usage_error + server_run" where
  "server_main argv =
     (case parse_args argv of
        Inl e \<Rightarrow> Inl e
      | Inr args \<Rightarrow> Inr (McpRun (transport args)))"

section \<open>The MCPProxy stand-in\<close>

text \<open>
  The class \<^verbatim>\<open>MCPProxy\<close> of the proxy notebook: \<^verbatim>\<open>__init__\<close> assigns three attributes of
  \<^verbatim>\<open>self\<close>, and the class method \<^verbatim>\<open>create\<close> returns \<^verbatim>\<open>MCPProxy(openapi_url=...,
  client_source_path=..., servers=...)\<close>. Objects live on a heap, a list indexed by
  reference; an object is its class name and its attribute dictionary. Python is
  dynamically typed, so the attribute values are of an arbitrary type \<open>'v\<close>.
  \<^verbatim>\<open>create\<close> names the class \<^verbatim>\<open>MCPProxy\<close> itself and never uses its \<^verbatim>\<open>cls\<close> argument; its
  annotation \<^verbatim>\<open>-> None\<close> has no effect at run time.
\<close>

record 'v py_object =
  py_class :: string
  py_dict :: "string \<rightharpoonup> 'v"

type_synonym 'v heap = "'v py_object list"

definition new_object :: "'v heap \<Rightarrow> string \<Rightarrow> 'v heap \<times> nat" where
  "new_object h cls = (h @ [\<lparr>py_class = cls, py_dict = Map.empty\<rparr>], length h)"

definition setattr :: "'v heap \<Rightarrow> nat \<Rightarrow> string \<Rightarrow> 'v \<Rightarrow> 'v heap" where
  "setattr h r name v = h[r := (h ! r)\<lparr>py_dict := (py_dict (h ! r))(name \<mapsto> v)\<rparr>]"

definition MCPProxy_init :: "'v heap \<Rightarrow> nat \<Rightarrow> 'v \<Rightarrow> 'v \<Rightarrow> 'v \<Rightarrow> 'v heap" where
  "MCPProxy_init h self openapi_url client_source_path servers =
     (let h1 = setattr h self ''openapi_url'' openapi_url;
          h2 = setattr h1 self ''client_source_path'' client_source_path;
          h3 = setattr h2 self ''servers'' servers
      in h3)"

definition MCPProxy_create :: "'v heap \<Rightarrow> string \<Rightarrow> 'v \<Rightarrow> 'v \<Rightarrow> 'v \<Rightarrow> 'v heap \<times> nat" where
  "MCPProxy_create h cls openapi_url client_source_path servers =
     (let (h1, self) = new_object h ''MCPProxy'';
          h2 = MCPProxy_init h1 self openapi_url client_source_path servers
      in (h2, self))"

text \<open>The values that the notebook passes: a string, a path, a list of dictionaries.\<close>

datatype py_value =
    Str string
  | Path string
  | PyList "py_value list"
  | PyDict "(string \<times> py_value) list"

section \<open>The client driver\<close>

text \<open>
  Each connection cell of the two notebooks is one \<^verbatim>\<open>async with\<close> block: it enters a
  transport client and a \<^verbatim>\<open>ClientSession\<close>, awaits \<^verbatim>\<open>session.initialize()\<close> and then the
  calls of its body, and leaves the two context managers in reverse order. Everything
  it calls belongs to the MCP SDK or to the agent framework, so a cell is modelled by the
  calls it makes, in order, with their arguments. What a call does is the library's
  business; all the cell sees is whether the call returns or raises, and a raise ends the
  body and unwinds through the context managers already entered. Printing is left out.
\<close>

subsection \<open>Arguments of the calls\<close>

text \<open>
  \<^verbatim>\<open>timedelta(seconds=30)\<close>: a \<^verbatim>\<open>timedelta\<close> keeps days, seconds and microseconds, with
  the seconds normalised into a day. \<^verbatim>\<open>StdioServerParameters(command=, args=, env=)\<close>
  has \<^verbatim>\<open>env\<close> optional, with default \<^verbatim>\<open>None\<close>.
\<close>

record timedelta =
  days :: int
  seconds :: int
  microseconds :: int

definition timedelta_of_seconds :: "int \<Rightarrow> timedelta" where
  "timedelta_of_seconds n = \<lparr>days = n div 86400, seconds = n mod 86400, microseconds = 0\<rparr>"

record stdio_server_parameters =
  command :: string
  args :: "string list"
  env :: "(string \<times> string) list option"

subsection \<open>Calls and their outcomes\<close>

text \<open>
  The calls that the cells make. \<^verbatim>\<open>ClientSession\<close> carries its \<^verbatim>\<open>read_timeout_seconds\<close>
  argument, \<^verbatim>\<open>None\<close> (the default of the SDK) when the cell does not pass one.
  \<^verbatim>\<open>SessionCallTool\<close> carries the tool's name and the dictionary of its arguments;
  \<^verbatim>\<open>AgentARun\<close> carries \<^verbatim>\<open>message\<close>, \<^verbatim>\<open>max_turns\<close> and \<^verbatim>\<open>user_input\<close>.
\<close>

datatype sdk_call =
    StdioClient stdio_server_parameters
  | SseClient string
  | ClientSession "timedelta option"
  | SessionInitialize
  | SessionListTools
  | SessionCallTool string "(string \<times> int) list"
  | CreateToolkit
  | LLMConfig string string
  | AssistantAgent string
  | RegisterForLlm
  | AgentARun string nat bool
  | ResultProcess

text \<open>
  A run of a cell is the list of what happened, in order: a call returned, a call raised,
  or a context manager was left. Which calls raise is not the notebook's to decide: the
  parameter \<open>raises\<close> says, for the \<open>k\<close>-th call of the run, whether it raises.
\<close>

datatype event = Returned sdk_call | Raised sdk_call | Exited sdk_call

text \<open>A sequence of awaited calls runs until the first one that raises.\<close>

fun run_calls :: "(nat \<Rightarrow> bool) \<Rightarrow> nat \<Rightarrow> sdk_call list \<Rightarrow> event list" where
  "run_calls raises k [] = []"
| "run_calls raises k (c # cs) =
     (if raises k then [Raised c] else Returned c # run_calls raises (Suc k) cs)"

text \<open>
  \<^verbatim>\<open>async with m1 as x, m2 as y: body\<close> enters the managers from left to right, runs the
  body, and leaves every manager that was entered, the last one first, also when the
  body or a later manager raised.
\<close>

fun async_with :: "(nat \<Rightarrow> bool) \<Rightarrow> nat \<Rightarrow> sdk_call list \<Rightarrow> sdk_call list \<Rightarrow> event list" where
  "async_with raises k [] body = run_calls raises k body"
| "async_with raises k (m # ms) body =
     (if raises k then [Raised m]
      else Returned m # async_with raises (Suc k) ms body @ [Exited m])"

record cell =
  managers :: "sdk_call list"
  block :: "sdk_call list"

definition run_cell :: "(nat \<Rightarrow> bool) \<Rightarrow> cell \<Rightarrow> event list" where
  "run_cell raises c = async_with raises 0 (managers c) (block c)"

text \<open>The run in which every call returns.\<close>

definition never_raises :: "nat \<Rightarrow> bool" where
  "never_raises k = False"

subsection \<open>The helper functions of the notebooks\<close>

text \<open>
  \<^verbatim>\<open>create_toolkit_and_run(session)\<close>: \<^verbatim>\<open>create_toolkit(session=session)\<close>, an
  \<^verbatim>\<open>AssistantAgent\<close> named \<^verbatim>\<open>assistant\<close> with its \<^verbatim>\<open>LLMConfig\<close>,
  \<^verbatim>\<open>toolkit.register_for_llm(agent)\<close>, \<^verbatim>\<open>agent.a_run(message=..., tools=toolkit.tools,
  max_turns=2, user_input=False)\<close> and \<^verbatim>\<open>result.process()\<close>. The two notebooks differ in
  the message only. \<^verbatim>\<open>print_available_tools(session)\<close> is \<^verbatim>\<open>session.list_tools()\<close> and
  printing.
\<close>

definition create_toolkit_and_run :: "string \<Rightarrow> sdk_call list" where
  "create_toolkit_and_run message =
     [CreateToolkit,
      LLMConfig ''gpt-4o-mini'' ''openai'',
      AssistantAgent ''assistant'',
      RegisterForLlm,
      AgentARun message 2 False,
      ResultProcess]"

definition print_available_tools :: "sdk_call list" where
  "print_available_tools = [SessionListTools]"

definition client_message :: string where
  \<open>client_message = ''1. Add 123223 and 456789'' @ [CHR 0x0A] @ ''2.Get file content for 'ag2'.''\<close>

definition proxy_message :: string where
  "proxy_message = ''Add 123223 and 456789''"

text \<open>
  \<^verbatim>\<open>mcp_whatsapp_path = Path() / "mcp_whatsapp"\<close>, and \<^verbatim>\<open>str(mcp_whatsapp_path /
  "main_tmp.py")\<close>, with the separator of a POSIX system.
\<close>

definition mcp_whatsapp_path :: string where
  "mcp_whatsapp_path = ''mcp_whatsapp''"

definition path_join :: "string \<Rightarrow> string \<Rightarrow> string" where
  "path_join p q = p @ ''/'' @ q"

subsection \<open>The connection cells\<close>

text \<open>
  The stdio cell and the SSE cell of \<^verbatim>\<open>mcp_client.ipynb\<close>. The stdio cell passes
  \<^verbatim>\<open>read_timeout_seconds=timedelta(seconds=30)\<close>; the SSE cell is
  \<^verbatim>\<open>ClientSession(*streams)\<close>, with no timeout argument.
\<close>

definition client_stdio_cell :: cell where
  "client_stdio_cell =
     \<lparr>managers =
        [StdioClient \<lparr>command = ''python'', args = [mcp_server_path, ''stdio''], env = None\<rparr>,
         ClientSession (Some (timedelta_of_seconds 30))],
      block = SessionInitialize # create_toolkit_and_run client_message\<rparr>"

definition client_sse_cell :: cell where
  "client_sse_cell =
     \<lparr>managers = [SseClient ''http://127.0.0.1:8000/sse'', ClientSession None],
      block = SessionInitialize # create_toolkit_and_run client_message\<rparr>"

text \<open>
  The four connection cells of the proxy notebook: the stdio cell that lists the tools
  and calls \<^verbatim>\<open>add\<close> with \<^verbatim>\<open>{"a": 2, "b": 3}\<close>, the stdio cell with an empty \<^verbatim>\<open>env\<close>, the SSE
  cell, and the stdio cell whose \<^verbatim>\<open>env\<close> carries the two placeholder credentials.
\<close>

definition proxy_stdio_tools_cell :: cell where
  "proxy_stdio_tools_cell =
     \<lparr>managers =
        [StdioClient \<lparr>command = ''python'', args = [mcp_whatsapp_path, ''stdio''], env = None\<rparr>,
         ClientSession (Some (timedelta_of_seconds 30))],
      block = SessionInitialize # print_available_tools
               @ [SessionCallTool ''add'' [(''a'', 2), (''b'', 3)]]\<rparr>"

definition proxy_stdio_cell :: cell where
  "proxy_stdio_cell =
     \<lparr>managers =
        [StdioClient \<lparr>command = ''python'',
                      args = [path_join mcp_whatsapp_path ''main_tmp.py'', ''stdio''],
                      env = Some []\<rparr>,
         ClientSession (Some (timedelta_of_seconds 30))],
      block = SessionInitialize # create_toolkit_and_run proxy_message\<rparr>"

definition proxy_sse_cell :: cell where
  "proxy_sse_cell =
     \<lparr>managers = [SseClient ''http://127.0.0.1:8000/sse'', ClientSession None],
      block = SessionInitialize # create_toolkit_and_run proxy_message\<rparr>"

definition proxy_stdio_env_cell :: cell where
  "proxy_stdio_env_cell =
     \<lparr>managers =
        [StdioClient \<lparr>command = ''python'',
                      args = [path_join mcp_whatsapp_path ''main_tmp.py'', ''stdio''],
                      env = Some [(''API_KEY'', ''your-api-key''),
                                  (''OAUTH2_TOKEN'', ''your-oauth2-token'')]\<rparr>,
         ClientSession (Some (timedelta_of_seconds 30))],
      block = SessionInitialize # create_toolkit_and_run proxy_message\<rparr>"

definition client_cells :: "cell list" where
  "client_cells =
     [client_stdio_cell, client_sse_cell,
      proxy_stdio_tools_cell, proxy_stdio_cell, proxy_sse_cell, proxy_stdio_env_cell]"

subsection \<open>Predicates on cells and runs\<close>

text \<open>A cell is over stdio when it enters a \<^verbatim>\<open>stdio_client\<close>.\<close>

fun is_stdio_client :: "sdk_call \<Rightarrow> bool" where
  "is_stdio_client (StdioClient p) = True"
| "is_stdio_client c = False"

definition over_stdio :: "cell \<Rightarrow> bool" where
  "over_stdio c = list_ex is_stdio_client (managers c)"

text \<open>
  The calls that send requests on the session: listing the tools, calling a tool,
  \<^verbatim>\<open>create_toolkit\<close> (which lists the session's tools) and the agent's run and its
  processing (which call tools through the toolkit).
\<close>

fun session_request :: "sdk_call \<Rightarrow> bool" where
  "session_request SessionListTools = True"
| "session_request (SessionCallTool name arguments) = True"
| "session_request CreateToolkit = True"
| "session_request (AgentARun message max_turns user_input) = True"
| "session_request ResultProcess = True"
| "session_request c = False"

text \<open>The call that an event issued; leaving a context manager issues none.\<close>

fun issued :: "event \<Rightarrow> sdk_call option" where
  "issued (Returned c) = Some c"
| "issued (Raised c) = Some c"
| "issued (Exited c) = None"

text \<open>
  A run is in order when every request on the session is issued after an
  \<^verbatim>\<open>initialize\<close> that returned; \<open>init\<close> says whether one has returned so far.
\<close>

fun initialized_first :: "bool \<Rightarrow> event list \<Rightarrow> bool" where
  "initialized_first init [] = True"
| "initialized_first init (Returned c # es) =
     ((if session_request c then init else True)
      \<and> initialized_first (init \<or> c = SessionInitialize) es)"
| "initialized_first init (Raised c # es) =
     ((if session_request c then init else True) \<and> initialized_first init es)"
| "initialized_first init (Exited c # es) = initialized_first init es"

section \<open>Properties of the server script\<close>

lemma files_lookup: "map_of files name = (if name = ''ag2'' then Some ''AG has released 0.8.5 version on 2025-04-03'' else None)"
  by (simp add: files_def)

lemma mcp_server_file_content_length: "length mcp_server_file_content = 800"
  by (simp add: mcp_server_file_content_def join_lines_def mcp_server_file_lines_def)

text \<open>Indexing \<^verbatim>\<open>files\<close> directly would raise for a missing name.\<close>

lemma dict_getitem_unknown: "dict_getitem files ''unknown'' = Inl (KeyError ''unknown'')"
  by (simp add: dict_getitem_def files_lookup)

lemma parse_args_single:
  "parse_args [v] = (if v = ''stdio'' \<or> v = ''sse'' then Inr \<lparr>transport = v\<rparr>
                     else Inl (InvalidChoice v [''stdio'', ''sse'']))"
  by (simp add: transport_choices_def)

text \<open>
  C1. For all integers \<open>a\<close> and \<open>b\<close> the \<^verbatim>\<open>add\<close> tool returns \<open>a + b\<close>, called directly or
  by its registered name; for 2 and 3 it returns 5, for 123223 and 456789 it returns 580012.
\<close>

theorem add_returns_sum:
  "add a b = a + b \<and> call_tool ''add'' a b = Inr (a + b)
   \<and> add 2 3 = 5 \<and> add 123223 456789 = 580012
   \<and> call_tool ''add'' 2 3 = Inr 5 \<and> call_tool ''add'' 123223 456789 = Inr 580012"
  by (simp add: add_def call_tool_def tools_def)

text \<open>
  C9. For all integers \<open>a\<close> and \<open>b\<close> the \<^verbatim>\<open>multiply\<close> tool returns \<open>a * b\<close>, called directly
  or by its registered name.
\<close>

theorem multiply_returns_product:
  "multiply a b = a * b \<and> call_tool ''multiply'' a b = Inr (a * b)"
  by (simp add: multiply_def call_tool_def tools_def)

text \<open>
  C2. \<^verbatim>\<open>get_server_file\<close> with the name \<^verbatim>\<open>ag2\<close> (the resource \<^verbatim>\<open>server-file://ag2\<close>) returns
  exactly the text \<^verbatim>\<open>AG has released 0.8.5 version on 2025-04-03\<close>.
\<close>

theorem get_server_file_ag2:
  "get_server_file ''ag2'' = Inr ''AG has released 0.8.5 version on 2025-04-03''"
  by (simp add: get_server_file_def dict_get_def files_lookup)

text \<open>
  C3. For every name that is not a key of \<^verbatim>\<open>files\<close>, \<^verbatim>\<open>get_server_file\<close> raises nothing and
  returns the text \<^verbatim>\<open>File not found: \<close> followed by the name.
\<close>

theorem get_server_file_not_found:
  "name \<notin> fst ` set files \<Longrightarrow> get_server_file name = Inr (''File not found: '' @ name)"
  by (simp add: get_server_file_def dict_get_def files_lookup files_def)

theorem get_server_file_not_found_witness:
  "''unknown'' \<notin> fst ` set files \<and> get_server_file ''unknown'' = Inr ''File not found: unknown''"
  using get_server_file_not_found [of "''unknown''"] by (simp add: files_def)

text \<open>
  C10. \<^verbatim>\<open>get_server_file\<close> is total: for every name, known or not, it returns a string and
  never a lookup error, since it looks the name up with \<^verbatim>\<open>get\<close> and a default.
\<close>

theorem get_server_file_total:
  "(\<exists>s. get_server_file name = Inr s) \<and> (\<forall>e. get_server_file name \<noteq> Inl e)"
  by (simp add: get_server_file_def dict_get_def split: option.split)

text \<open>
  C5, at the value \<^verbatim>\<open>streamable-http\<close>: the parser's choices are \<^verbatim>\<open>stdio\<close> and \<^verbatim>\<open>sse\<close> only,
  so the third transport that the argument's help text names is refused with a usage
  error, while \<^verbatim>\<open>stdio\<close> and \<^verbatim>\<open>sse\<close> are accepted.
\<close>

theorem parse_args_streamable_http_rejected:
  "parse_args [''streamable-http''] = Inl (InvalidChoice ''streamable-http'' [''stdio'', ''sse''])
   \<and> server_main [''streamable-http''] = Inl (InvalidChoice ''streamable-http'' [''stdio'', ''sse''])
   \<and> server_main [''stdio''] = Inr (McpRun ''stdio'')
   \<and> server_main [''sse''] = Inr (McpRun ''sse'')"
  by (simp add: server_main_def transport_choices_def)

text \<open>
  C8. The generator takes nothing but the file system it writes to. From any two file
  systems, the file \<^verbatim>\<open>mcp_server.py\<close> afterwards holds the same text, the literal
  \<^verbatim>\<open>mcp_server_file_content\<close>; the call returns the same count; no other file changes.
\<close>

theorem generate_server_script_deterministic:
  "fst (generate_server_script fs1) ''mcp_server.py'' = Some mcp_server_file_content
   \<and> fst (generate_server_script fs1) ''mcp_server.py'' = fst (generate_server_script fs2) ''mcp_server.py''
   \<and> snd (generate_server_script fs1) = snd (generate_server_script fs2)
   \<and> fst (generate_server_script fs1) |` (- {''mcp_server.py''}) = fs1 |` (- {''mcp_server.py''})"
  by (simp add: generate_server_script_def write_text_def mcp_server_path_def)

section \<open>Properties of the MCPProxy stand-in\<close>

lemma setattr_new:
  "setattr (h @ [ob]) (length h) name v = h @ [ob\<lparr>py_dict := (py_dict ob)(name \<mapsto> v)\<rparr>]"
  by (simp add: setattr_def)

lemma MCPProxy_create_eq:
  "MCPProxy_create h cls u p s =
     (h @ [\<lparr>py_class = ''MCPProxy'',
            py_dict = [''openapi_url'' \<mapsto> u, ''client_source_path'' \<mapsto> p, ''servers'' \<mapsto> s]\<rparr>],
      length h)"
  by (simp add: MCPProxy_create_def new_object_def MCPProxy_init_def setattr_new)

text \<open>
  C4. \<^verbatim>\<open>MCPProxy.create(url, path, servers)\<close> returns a reference to a new \<^verbatim>\<open>MCPProxy\<close>
  object whose attributes \<^verbatim>\<open>openapi_url\<close>, \<^verbatim>\<open>client_source_path\<close> and \<^verbatim>\<open>servers\<close> are the
  three arguments; the object has no other attribute, and every object that was on the
  heap before is unchanged.
\<close>

theorem MCPProxy_create_stores_arguments:
  assumes "MCPProxy_create h cls openapi_url client_source_path servers = (h', r)"
  shows "r = length h \<and> length h' = Suc (length h) \<and> take (length h) h' = h
         \<and> py_class (h' ! r) = ''MCPProxy''
         \<and> py_dict (h' ! r) ''openapi_url'' = Some openapi_url
         \<and> py_dict (h' ! r) ''client_source_path'' = Some client_source_path
         \<and> py_dict (h' ! r) ''servers'' = Some servers
         \<and> dom (py_dict (h' ! r)) = {''openapi_url'', ''client_source_path'', ''servers''}"
proof -
  from assms have h': "h' = h @ [\<lparr>py_class = ''MCPProxy'',
            py_dict = [''openapi_url'' \<mapsto> openapi_url,
                       ''client_source_path'' \<mapsto> client_source_path,
                       ''servers'' \<mapsto> servers]\<rparr>]"
    and r: "r = length h"
    by (simp_all add: MCPProxy_create_eq)
  show ?thesis
    unfolding h' r by auto
qed

text \<open>The call of the proxy notebook, on an empty heap.\<close>

theorem MCPProxy_create_stores_arguments_witness:
  "MCPProxy_create [] ''MCPProxy'' (Str ''https://dev.infobip.com/openapi/products/whatsapp.json'')
      (Path ''mcp_whatsapp'') (PyList [PyDict [(''url'', Str ''https://api.infobip.com'')]])
   = ([\<lparr>py_class = ''MCPProxy'',
        py_dict = [''openapi_url'' \<mapsto> Str ''https://dev.infobip.com/openapi/products/whatsapp.json'',
                   ''client_source_path'' \<mapsto> Path ''mcp_whatsapp'',
                   ''servers'' \<mapsto> PyList [PyDict [(''url'', Str ''https://api.infobip.com'')]]]\<rparr>], 0)
   \<and> py_dict ([\<lparr>py_class = ''MCPProxy'',
        py_dict = [''openapi_url'' \<mapsto> Str ''https://dev.infobip.com/openapi/products/whatsapp.json'',
                   ''client_source_path'' \<mapsto> Path ''mcp_whatsapp'',
                   ''servers'' \<mapsto> PyList [PyDict [(''url'', Str ''https://api.infobip.com'')]]]\<rparr>] ! 0) ''servers''
     = Some (PyList [PyDict [(''url'', Str ''https://api.infobip.com'')]])"
proof -
  have run: "MCPProxy_create [] ''MCPProxy'' (Str ''https://dev.infobip.com/openapi/products/whatsapp.json'')
      (Path ''mcp_whatsapp'') (PyList [PyDict [(''url'', Str ''https://api.infobip.com'')]])
   = ([\<lparr>py_class = ''MCPProxy'',
        py_dict = [''openapi_url'' \<mapsto> Str ''https://dev.infobip.com/openapi/products/whatsapp.json'',
                   ''client_source_path'' \<mapsto> Path ''mcp_whatsapp'',
                   ''servers'' \<mapsto> PyList [PyDict [(''url'', Str ''https://api.infobip.com'')]]]\<rparr>], 0)"
    by (simp add: MCPProxy_create_def new_object_def MCPProxy_init_def setattr_def)
  from MCPProxy_create_stores_arguments [OF run] run show ?thesis by simp
qed

section \<open>Properties of the client driver\<close>

lemma run_calls_initialized: "initialized_first True (run_calls raises k cs)"
  by (induction cs arbitrary: k) simp_all

lemma initialized_first_exit:
  "initialized_first init (es @ [Exited m]) = initialized_first init es"
  by (induction init es rule: initialized_first.induct) simp_all

lemma async_with_initialized:
  "\<forall>m \<in> set ms. \<not> session_request m \<Longrightarrow>
   initialized_first init (async_with raises k ms (SessionInitialize # rest))"
proof (induction ms arbitrary: k init)
  case Nil
  show ?case by (simp add: run_calls_initialized)
next
  case (Cons m ms)
  then show ?case by (simp add: initialized_first_exit)
qed

lemma initialized_first_nth:
  "initialized_first init es \<Longrightarrow> i < length es \<Longrightarrow> issued (es ! i) = Some q \<Longrightarrow>
   session_request q \<Longrightarrow> init \<or> (\<exists>j<i. es ! j = Returned SessionInitialize)"
proof (induction init es arbitrary: i rule: initialized_first.induct)
  case (1 init)
  then show ?case by simp
next
  case (2 init c es)
  show ?case
  proof (cases i)
    case 0
    with 2 show ?thesis by (auto split: if_splits)
  next
    case (Suc n)
    with 2 have "(init \<or> c = SessionInitialize) \<or> (\<exists>j<n. es ! j = Returned SessionInitialize)"
      by simp
    then show ?thesis using Suc by auto
  qed
next
  case (3 init c es)
  show ?case
  proof (cases i)
    case 0
    with 3 show ?thesis by (auto split: if_splits)
  next
    case (Suc n)
    with 3 have "init \<or> (\<exists>j<n. es ! j = Returned SessionInitialize)"
      by simp
    then show ?thesis using Suc by auto
  qed
next
  case (4 init c es)
  show ?case
  proof (cases i)
    case 0
    with 4 show ?thesis by simp
  next
    case (Suc n)
    with 4 have "init \<or> (\<exists>j<n. es ! j = Returned SessionInitialize)"
      by simp
    then show ?thesis using Suc by auto
  qed
qed

lemma client_cells_shape:
  "c \<in> set client_cells \<Longrightarrow>
   (\<forall>m \<in> set (managers c). \<not> session_request m) \<and> (\<exists>rest. block c = SessionInitialize # rest)"
  by (auto simp: client_cells_def client_stdio_cell_def client_sse_cell_def
        proxy_stdio_tools_cell_def proxy_stdio_cell_def proxy_sse_cell_def proxy_stdio_env_cell_def)

text \<open>
  C7. In every connection cell, whichever calls of the libraries raise, every request
  that a run issues on the session (listing tools, calling a tool, building the toolkit,
  running the agent) comes after an \<^verbatim>\<open>initialize\<close> that returned.
\<close>

theorem initialize_precedes_requests:
  assumes "c \<in> set client_cells"
    and "i < length (run_cell raises c)"
    and "issued (run_cell raises c ! i) = Some q"
    and "session_request q"
  shows "\<exists>j<i. run_cell raises c ! j = Returned SessionInitialize"
proof -
  from client_cells_shape [OF assms(1)] obtain rest where
    ms: "\<forall>m \<in> set (managers c). \<not> session_request m" and b: "block c = SessionInitialize # rest"
    by blast
  have "initialized_first False (run_cell raises c)"
    unfolding run_cell_def b using ms by (rule async_with_initialized)
  from initialized_first_nth [OF this assms(2,3,4)] show ?thesis by simp
qed

text \<open>The stdio cell that lists the tools, in the run where nothing raises.\<close>

theorem initialize_precedes_requests_witness:
  "proxy_stdio_tools_cell \<in> set client_cells
   \<and> 3 < length (run_cell never_raises proxy_stdio_tools_cell)
   \<and> issued (run_cell never_raises proxy_stdio_tools_cell ! 3) = Some SessionListTools
   \<and> session_request SessionListTools
   \<and> (\<exists>j<3. run_cell never_raises proxy_stdio_tools_cell ! j = Returned SessionInitialize)"
proof -
  have c: "proxy_stdio_tools_cell \<in> set client_cells"
    by (simp add: client_cells_def)
  have l: "3 < length (run_cell never_raises proxy_stdio_tools_cell)"
    by (simp add: run_cell_def never_raises_def proxy_stdio_tools_cell_def print_available_tools_def)
  have i: "issued (run_cell never_raises proxy_stdio_tools_cell ! 3) = Some SessionListTools"
    by (simp add: run_cell_def never_raises_def proxy_stdio_tools_cell_def print_available_tools_def)
  have s: "session_request SessionListTools"
    by simp
  from initialize_precedes_requests [OF c l i s] c l i s show ?thesis by simp
qed

lemma run_calls_issued:
  "e \<in> set (run_calls raises k cs) \<Longrightarrow> issued e = Some q \<Longrightarrow> q \<in> set cs"
  by (induction cs arbitrary: k) (auto split: if_splits)

lemma async_with_issued:
  "e \<in> set (async_with raises k ms blk) \<Longrightarrow> issued e = Some q \<Longrightarrow> q \<in> set ms \<union> set blk"
proof (induction ms arbitrary: k)
  case Nil
  then show ?case by (auto dest: run_calls_issued)
next
  case (Cons m ms)
  then show ?case by (fastforce split: if_splits)
qed

lemma client_cells_sessions:
  "c \<in> set client_cells \<Longrightarrow> ClientSession t \<in> set (managers c) \<union> set (block c) \<Longrightarrow>
   t = (if over_stdio c then Some (timedelta_of_seconds 30) else None)"
  by (auto simp: client_cells_def client_stdio_cell_def client_sse_cell_def
        proxy_stdio_tools_cell_def proxy_stdio_cell_def proxy_sse_cell_def proxy_stdio_env_cell_def
        over_stdio_def create_toolkit_and_run_def print_available_tools_def)

text \<open>
  C6, as stated, fails: the SSE cell is a connection cell, and in the run where nothing
  raises it constructs its \<^verbatim>\<open>ClientSession\<close> with no read timeout at all.
\<close>

theorem sse_session_without_timeout:
  "client_sse_cell \<in> set client_cells
   \<and> Returned (ClientSession None) \<in> set (run_cell never_raises client_sse_cell)
   \<and> None \<noteq> Some (timedelta_of_seconds 30)"
  by (simp add: client_cells_def run_cell_def never_raises_def client_sse_cell_def)

text \<open>
  C6, amended. In every connection cell, whichever calls raise, a \<^verbatim>\<open>ClientSession\<close> that
  the run constructs is passed a read timeout of exactly 30 seconds when the cell is over
  stdio, and no read timeout when it is over SSE.
\<close>

theorem stdio_sessions_timeout_30:
  assumes "c \<in> set client_cells"
    and "e \<in> set (run_cell raises c)"
    and "issued e = Some (ClientSession t)"
  shows "t = (if over_stdio c then Some \<lparr>days = 0, seconds = 30, microseconds = 0\<rparr> else None)"
proof -
  from assms(2,3) have "ClientSession t \<in> set (managers c) \<union> set (block c)"
    unfolding run_cell_def by (rule async_with_issued)
  with assms(1) have "t = (if over_stdio c then Some (timedelta_of_seconds 30) else None)"
    by (rule client_cells_sessions)
  then show ?thesis by (simp add: timedelta_of_seconds_def)
qed

theorem stdio_sessions_timeout_30_witness:
  "client_stdio_cell \<in> set client_cells
   \<and> Returned (ClientSession (Some \<lparr>days = 0, seconds = 30, microseconds = 0\<rparr>))
        \<in> set (run_cell never_raises client_stdio_cell)
   \<and> over_stdio client_stdio_cell"
proof -
  let ?e = "Returned (ClientSession (Some \<lparr>days = 0, seconds = 30, microseconds = 0\<rparr>))"
  have c: "client_stdio_cell \<in> set client_cells"
    by (simp add: client_cells_def)
  have e: "?e \<in> set (run_cell never_raises client_stdio_cell)"
    by (simp add: run_cell_def never_raises_def client_stdio_cell_def timedelta_of_seconds_def)
  have i: "issued ?e = Some (ClientSession (Some \<lparr>days = 0, seconds = 30, microseconds = 0\<rparr>))"
    by simp
  have o: "over_stdio client_stdio_cell"
    by (simp add: over_stdio_def client_stdio_cell_def)
  from stdio_sessions_timeout_30 [OF c e i] c e o show ?thesis by simp
qed

end
